theory Spec2Isabelle
  imports Complex_Main "HOL-Library.Multiset" "HOL-Library.Sublist"
begin

section \<open>Values shared by both modules\<close>

text \<open>
  A Python \<open>datetime\<close> is modelled by the number of microseconds since
  0001-01-01 00:00:00 (naive, as \<open>datetime.now()\<close> returns it), a \<open>timedelta\<close> by a number
  of microseconds. The time line is taken unbounded: the range of years 1..9999 that Python
  enforces is not part of the model. Pandas' floating point columns (\<open>price\<close>,
  \<open>change_percent\<close>) are modelled by rationals, so comparisons are exact and there is no NaN.
\<close>

type_synonym datetime = int

definition timedelta_minutes :: "int \<Rightarrow> int" where
  "timedelta_minutes m = m * 60000000"

subsection \<open>\<open>strftime('%Y-%m-%d %H:%M:%S')\<close>\<close>

definition digit :: "nat \<Rightarrow> char" where
  "digit d = ''0123456789'' ! (d mod 10)"

definition pad2 :: "nat \<Rightarrow> string" where
  "pad2 n = [digit (n div 10), digit n]"

definition pad4 :: "nat \<Rightarrow> string" where
  "pad4 n = [digit (n div 1000), digit (n div 100), digit (n div 10), digit n]"

text \<open>
  The proleptic Gregorian date of a day number, day 0 being 0001-01-01: the days are counted
  from the first of March of year 0 in eras of 400 years.
\<close>

definition civil_from_days :: "int \<Rightarrow> int \<times> int \<times> int" where
  "civil_from_days d =
     (let z = d + 306;
          era = z div 146097;
          doe = z mod 146097;
          yoe = (doe - doe div 1460 + doe div 36524 - doe div 146096) div 365;
          doy = doe - (365 * yoe + yoe div 4 - yoe div 100);
          mp = (5 * doy + 2) div 153;
          dd = doy - (153 * mp + 2) div 5 + 1;
          mm = (if mp < 10 then mp + 3 else mp - 9);
          yy = yoe + era * 400 + (if mm \<le> 2 then 1 else 0)
      in (yy, mm, dd))"

definition strftime :: "datetime \<Rightarrow> string" where
  "strftime t =
     (let secs = t div 1000000;
          (yy, mm, dd) = civil_from_days (secs div 86400);
          sod = secs mod 86400
      in pad4 (nat yy) @ ''-'' @ pad2 (nat mm) @ ''-'' @ pad2 (nat dd) @ '' '' @
         pad2 (nat (sod div 3600)) @ '':'' @ pad2 (nat (sod mod 3600 div 60)) @ '':'' @
         pad2 (nat (sod mod 60)))"

section \<open>\<open>data_manager.py\<close>\<close>

text \<open>One row of the scan data: the dictionary built in \<open>_fetch_stock_data\<close>.\<close>

record quote =
  symbol :: string
  name :: string
  price :: rat
  change_percent :: rat
  volume :: int
  market_cap :: string
  sector :: string
  scan_time :: string

text \<open>One entry of the scan history: the dictionary passed to \<open>add_scan_history\<close>.\<close>

record scan_info =
  scan_time :: string
  total_stocks :: nat
  gainers :: nat
  losers :: nat
  status :: string

text \<open>The dictionary returned by \<open>get_statistics\<close>.\<close>

record statistics =
  total_stocks :: nat
  gainers :: nat
  losers :: nat
  avg_volume :: rat
  top_gainer :: "quote option"
  top_loser :: "quote option"

text \<open>
  The attributes of a \<open>DataManager\<close>. The data frame \<open>current_scan_data\<close> is the list of its
  rows, in order, under the default index 0, 1, ...; \<open>data_lock\<close> has no counterpart in this
  sequential model, where every method runs to its end before the next one starts.
\<close>

record DataManager =
  current_scan_data :: "quote list option"
  scan_history :: "scan_info list"
  last_scan_time :: "datetime option"
  next_scan_time :: "datetime option"
  max_history_items :: int

definition DataManager_init :: DataManager where
  "DataManager_init =
     \<lparr>current_scan_data = None, scan_history = [], last_scan_time = None,
      next_scan_time = None, max_history_items = 100\<rparr>"

definition store_scan_data :: "DataManager \<Rightarrow> quote list \<Rightarrow> datetime \<Rightarrow> DataManager" where
  "store_scan_data self stock_data t =
     self\<lparr>current_scan_data := Some stock_data,
          last_scan_time := Some t,
          next_scan_time := Some (t + timedelta_minutes 15)\<rparr>"

definition get_latest_scan_data :: "DataManager \<Rightarrow> quote list option" where
  "get_latest_scan_data self = current_scan_data self"

definition get_last_scan_time :: "DataManager \<Rightarrow> datetime option" where
  "get_last_scan_time self = last_scan_time self"

definition get_next_scan_time :: "DataManager \<Rightarrow> datetime option" where
  "get_next_scan_time self = next_scan_time self"

text \<open>
  The Python slice \<open>xs[i:]\<close>: a negative \<open>i\<close> counts from the end and is clipped at the
  start of the list, so \<open>xs[-0:]\<close> is the whole list.
\<close>

definition slice_from :: "'a list \<Rightarrow> int \<Rightarrow> 'a list" where
  "slice_from xs i =
     (if i < 0 then drop (nat (int (length xs) + i)) xs else drop (nat i) xs)"

definition add_scan_history :: "DataManager \<Rightarrow> scan_info \<Rightarrow> DataManager" where
  "add_scan_history self info =
     (let appended = scan_history self @ [info]
      in if int (length appended) > max_history_items self
         then self\<lparr>scan_history := slice_from appended (- max_history_items self)\<rparr>
         else self\<lparr>scan_history := appended\<rparr>)"

definition get_scan_history :: "DataManager \<Rightarrow> scan_info list" where
  "get_scan_history self = scan_history self"

definition get_filtered_data ::
    "DataManager \<Rightarrow> string \<Rightarrow> string \<Rightarrow> rat \<times> rat \<Rightarrow> quote list option" where
  "get_filtered_data self market_cap_filter sector_filter price_range =
     (case get_latest_scan_data self of
        None \<Rightarrow> None
      | Some data \<Rightarrow>
          if data = [] then None
          else
            let by_cap = (if market_cap_filter \<noteq> ''All''
                          then filter (\<lambda>r. market_cap r = market_cap_filter) data else data);
                by_sector = (if sector_filter \<noteq> ''All''
                             then filter (\<lambda>r. sector r = sector_filter) by_cap else by_cap)
            in Some (filter (\<lambda>r. price r \<ge> fst price_range \<and> price r \<le> snd price_range)
                       by_sector))"

text \<open>
  Pandas' \<open>idxmax\<close> and \<open>idxmin\<close> on a column without missing values: one pass from the
  left that keeps the position of the best value seen and replaces it only by a strictly
  better one. Under the default index the label returned is that position, which
  \<open>data.loc\<close> then reads.
\<close>

fun idxmax_from :: "rat list \<Rightarrow> nat \<Rightarrow> nat \<Rightarrow> rat \<Rightarrow> nat" where
  "idxmax_from [] i best v = best"
| "idxmax_from (x # xs) i best v =
     (if x > v then idxmax_from xs (Suc i) i x else idxmax_from xs (Suc i) best v)"

fun idxmin_from :: "rat list \<Rightarrow> nat \<Rightarrow> nat \<Rightarrow> rat \<Rightarrow> nat" where
  "idxmin_from [] i best v = best"
| "idxmin_from (x # xs) i best v =
     (if x < v then idxmin_from xs (Suc i) i x else idxmin_from xs (Suc i) best v)"

definition idxmax :: "rat list \<Rightarrow> nat option" where
  "idxmax col = (case col of [] \<Rightarrow> None | x # xs \<Rightarrow> Some (idxmax_from xs 1 0 x))"

definition idxmin :: "rat list \<Rightarrow> nat option" where
  "idxmin col = (case col of [] \<Rightarrow> None | x # xs \<Rightarrow> Some (idxmin_from xs 1 0 x))"

definition loc :: "quote list \<Rightarrow> nat option \<Rightarrow> quote option" where
  "loc data label =
     (case label of None \<Rightarrow> None
      | Some i \<Rightarrow> if i < length data then Some (data ! i) else None)"

text \<open>The mean of the volume column, as an exact quotient.\<close>

definition mean :: "int list \<Rightarrow> rat" where
  "mean col = of_int (sum_list col) / of_nat (length col)"

definition get_statistics :: "DataManager \<Rightarrow> statistics" where
  "get_statistics self =
     (case get_latest_scan_data self of
        None \<Rightarrow>
          \<lparr>statistics.total_stocks = 0, statistics.gainers = 0, statistics.losers = 0,
           avg_volume = 0, top_gainer = None, top_loser = None\<rparr>
      | Some data \<Rightarrow>
          if data = [] then
            \<lparr>statistics.total_stocks = 0, statistics.gainers = 0, statistics.losers = 0,
             avg_volume = 0, top_gainer = None, top_loser = None\<rparr>
          else
            \<lparr>statistics.total_stocks = length data,
             statistics.gainers = length (filter (\<lambda>r. change_percent r > 0) data),
             statistics.losers = length (filter (\<lambda>r. change_percent r < 0) data),
             avg_volume = mean (map volume data),
             top_gainer = (if length data > 0
                           then loc data (idxmax (map change_percent data)) else None),
             top_loser = (if length data > 0
                          then loc data (idxmin (map change_percent data)) else None)\<rparr>)"

definition clear_data :: "DataManager \<Rightarrow> DataManager" where
  "clear_data self =
     self\<lparr>current_scan_data := None, scan_history := [], last_scan_time := None,
          next_scan_time := None\<rparr>"

section \<open>\<open>stock_scanner.py\<close>\<close>

text \<open>An entry of \<open>sample_stocks\<close>.\<close>

record stock =
  symbol :: string
  name :: string
  sector :: string
  market_cap :: string

text \<open>
  The attributes of a \<open>StockScanner\<close>. The scanner holds its \<open>DataManager\<close>; the thread handle
  \<open>scanning_thread\<close> is left out.
\<close>

record StockScanner =
  data_manager :: DataManager
  is_running :: bool
  total_scans :: nat
  last_scan_time :: "datetime option"
  next_scan_time :: "datetime option"
  scan_interval_minutes :: int

definition StockScanner_init :: "DataManager \<Rightarrow> StockScanner" where
  "StockScanner_init dm =
     \<lparr>data_manager = dm, is_running = False, total_scans = 0,
      StockScanner.last_scan_time = None, StockScanner.next_scan_time = None,
      scan_interval_minutes = 15\<rparr>"

text \<open>The lines \<open>_perform_scan\<close> prints, by the \<open>print\<close> statement that writes them.\<close>

datatype printed =
  Starting_scan datetime
| Scan_completed nat
| No_data_received
| Error_during_scan string

text \<open>
  \<open>_perform_scan\<close>. The two readings of the clock (\<open>scan_start_time\<close> and the one of the
  exception handler) and the outcome of the call \<open>self._fetch_stock_data()\<close> are arguments:
  \<open>Inl e\<close> when the call raises an exception whose text \<open>str(e)\<close> is \<open>e\<close>, \<open>Inr stock_data\<close>
  when it returns. The result is the scanner afterwards and the lines printed.
\<close>

definition perform_scan ::
    "StockScanner \<Rightarrow> datetime \<Rightarrow> string + quote list \<Rightarrow> datetime
       \<Rightarrow> StockScanner \<times> printed list" where
  "perform_scan self scan_start_time fetched handler_time =
     (case fetched of
        Inr stock_data \<Rightarrow>
          if stock_data \<noteq> [] then
            let dm1 = store_scan_data (data_manager self) stock_data scan_start_time;
                dm2 = add_scan_history dm1
                  \<lparr>scan_info.scan_time = strftime scan_start_time,
                   scan_info.total_stocks = length stock_data,
                   scan_info.gainers = length (filter (\<lambda>s. change_percent s > 0) stock_data),
                   scan_info.losers = length (filter (\<lambda>s. change_percent s < 0) stock_data),
                   status = ''Success''\<rparr>
            in (self\<lparr>data_manager := dm2,
                     total_scans := total_scans self + 1,
                     StockScanner.last_scan_time := Some scan_start_time,
                     StockScanner.next_scan_time :=
                       Some (scan_start_time + timedelta_minutes (scan_interval_minutes self))\<rparr>,
                [Starting_scan scan_start_time, Scan_completed (length stock_data)])
          else (self, [Starting_scan scan_start_time, No_data_received])
      | Inl e \<Rightarrow>
          (self\<lparr>data_manager := add_scan_history (data_manager self)
                  \<lparr>scan_info.scan_time = strftime handler_time,
                   scan_info.total_stocks = 0, scan_info.gainers = 0, scan_info.losers = 0,
                   status = ''Error: '' @ e\<rparr>\<rparr>,
           [Starting_scan scan_start_time, Error_during_scan e]))"

definition sample_stocks :: "stock list" where
  "sample_stocks =
     [\<lparr>stock.symbol = ''RELIANCE'', stock.name = ''Reliance Industries Ltd'', stock.sector = ''Energy'', stock.market_cap = ''Large Cap''\<rparr>,
      \<lparr>stock.symbol = ''TCS'', stock.name = ''Tata Consultancy Services'', stock.sector = ''IT'', stock.market_cap = ''Large Cap''\<rparr>,
      \<lparr>stock.symbol = ''HDFCBANK'', stock.name = ''HDFC Bank Ltd'', stock.sector = ''Banking'', stock.market_cap = ''Large Cap''\<rparr>,
      \<lparr>stock.symbol = ''INFY'', stock.name = ''Infosys Ltd'', stock.sector = ''IT'', stock.market_cap = ''Large Cap''\<rparr>,
      \<lparr>stock.symbol = ''HINDUNILVR'', stock.name = ''Hindustan Unilever Ltd'', stock.sector = ''FMCG'', stock.market_cap = ''Large Cap''\<rparr>,
      \<lparr>stock.symbol = ''ICICIBANK'', stock.name = ''ICICI Bank Ltd'', stock.sector = ''Banking'', stock.market_cap = ''Large Cap''\<rparr>,
      \<lparr>stock.symbol = ''KOTAKBANK'', stock.name = ''Kotak Mahindra Bank'', stock.sector = ''Banking'', stock.market_cap = ''Large Cap''\<rparr>,
      \<lparr>stock.symbol = ''BAJFINANCE'', stock.name = ''Bajaj Finance Ltd'', stock.sector = ''Banking'', stock.market_cap = ''Large Cap''\<rparr>,
      \<lparr>stock.symbol = ''MARUTI'', stock.name = ''Maruti Suzuki India Ltd'', stock.sector = ''Auto'', stock.market_cap = ''Large Cap''\<rparr>,
      \<lparr>stock.symbol = ''SUNPHARMA'', stock.name = ''Sun Pharmaceutical Industries'', stock.sector = ''Pharma'', stock.market_cap = ''Large Cap''\<rparr>,
      \<lparr>stock.symbol = ''WIPRO'', stock.name = ''Wipro Ltd'', stock.sector = ''IT'', stock.market_cap = ''Large Cap''\<rparr>,
      \<lparr>stock.symbol = ''TECHM'', stock.name = ''Tech Mahindra Ltd'', stock.sector = ''IT'', stock.market_cap = ''Large Cap''\<rparr>,
      \<lparr>stock.symbol = ''HCLTECH'', stock.name = ''HCL Technologies Ltd'', stock.sector = ''IT'', stock.market_cap = ''Large Cap''\<rparr>,
      \<lparr>stock.symbol = ''DRREDDY'', stock.name = ''Dr Reddys Laboratories'', stock.sector = ''Pharma'', stock.market_cap = ''Large Cap''\<rparr>,
      \<lparr>stock.symbol = ''CIPLA'', stock.name = ''Cipla Ltd'', stock.sector = ''Pharma'', stock.market_cap = ''Large Cap''\<rparr>,
      \<lparr>stock.symbol = ''TATAMOTORS'', stock.name = ''Tata Motors Ltd'', stock.sector = ''Auto'', stock.market_cap = ''Large Cap''\<rparr>,
      \<lparr>stock.symbol = ''BAJAJFINSV'', stock.name = ''Bajaj Finserv Ltd'', stock.sector = ''Banking'', stock.market_cap = ''Large Cap''\<rparr>,
      \<lparr>stock.symbol = ''NESTLEIND'', stock.name = ''Nestle India Ltd'', stock.sector = ''FMCG'', stock.market_cap = ''Large Cap''\<rparr>,
      \<lparr>stock.symbol = ''TITAN'', stock.name = ''Titan Company Ltd'', stock.sector = ''FMCG'', stock.market_cap = ''Large Cap''\<rparr>,
      \<lparr>stock.symbol = ''ASIANPAINT'', stock.name = ''Asian Paints Ltd'', stock.sector = ''FMCG'', stock.market_cap = ''Large Cap''\<rparr>]"

text \<open>
  Python's \<open>round(x, 2)\<close>: to the nearest hundredth, a tie going to the even one. The
  floating point number closest to that hundredth, which Python returns, is identified
  with the hundredth itself.
\<close>

definition round2 :: "rat \<Rightarrow> rat" where
  "round2 x =
     (let y = x * 100;
          f = \<lfloor>y\<rfloor>;
          d = y - of_int f;
          n = (if d < 1 / 2 then f else if d > 1 / 2 then f + 1
               else if even f then f else f + 1)
      in of_int n / 100)"

text \<open>
  \<open>_fetch_stock_data\<close>. The reading of the clock is an argument, and so are the numbers drawn
  from \<open>random\<close>: \<open>rng i\<close> holds the three numbers that \<open>random.uniform(100, 3000)\<close>,
  \<open>random.uniform(-5, 5)\<close> and \<open>random.randint(100000, 10000000)\<close> return in the pass of the
  loop at position \<open>i\<close> of \<open>sample_stocks\<close>.
\<close>

fun fetch_loop ::
    "stock list \<Rightarrow> nat \<Rightarrow> (nat \<Rightarrow> rat \<times> rat \<times> int) \<Rightarrow> datetime \<Rightarrow> quote list
       \<Rightarrow> quote list" where
  "fetch_loop [] i rng current_time stock_data = stock_data"
| "fetch_loop (st # rest) i rng current_time stock_data =
     (case rng i of (base_price, change, vol) \<Rightarrow>
        fetch_loop rest (Suc i) rng current_time
          (stock_data @
             [\<lparr>quote.symbol = stock.symbol st,
               quote.name = stock.name st,
               price = round2 base_price,
               change_percent = round2 change,
               volume = vol,
               quote.market_cap = stock.market_cap st,
               quote.sector = stock.sector st,
               quote.scan_time = strftime current_time\<rparr>]))"

definition fetch_stock_data :: "datetime \<Rightarrow> (nat \<Rightarrow> rat \<times> rat \<times> int) \<Rightarrow> quote list" where
  "fetch_stock_data current_time rng = fetch_loop sample_stocks 0 rng current_time []"

text \<open>A scan cycle of the scanner as it is shipped, fetching from \<open>_fetch_stock_data\<close>.\<close>

definition perform_scan_builtin ::
    "StockScanner \<Rightarrow> datetime \<Rightarrow> datetime \<Rightarrow> (nat \<Rightarrow> rat \<times> rat \<times> int) \<Rightarrow> datetime
       \<Rightarrow> StockScanner \<times> printed list" where
  "perform_scan_builtin self scan_start_time current_time rng handler_time =
     perform_scan self scan_start_time (Inr (fetch_stock_data current_time rng)) handler_time"

definition get_status :: "StockScanner \<Rightarrow> bool \<times> nat \<times> datetime option \<times> datetime option" where
  "get_status self =
     (is_running self, total_scans self, StockScanner.last_scan_time self,
      StockScanner.next_scan_time self)"

subsection \<open>The snapshot of the specification's concrete scenario\<close>

abbreviation quote_AAA :: quote where
  "quote_AAA \<equiv>
     \<lparr>quote.symbol = ''AAA'', quote.name = ''AAA Ltd'', price = 50, change_percent = 2,
      volume = 1000, quote.market_cap = ''Small Cap'', quote.sector = ''IT'',
      quote.scan_time = ''2026-01-01 00:00:00''\<rparr>"

abbreviation quote_BBB :: quote where
  "quote_BBB \<equiv>
     \<lparr>quote.symbol = ''BBB'', quote.name = ''BBB Ltd'', price = 5000, change_percent = - 1,
      volume = 3000, quote.market_cap = ''Large Cap'', quote.sector = ''Banking'',
      quote.scan_time = ''2026-01-01 00:00:00''\<rparr>"

text \<open>A history entry that records only its number.\<close>

abbreviation numbered :: "nat \<Rightarrow> scan_info" where
  "numbered n \<equiv>
     \<lparr>scan_info.scan_time = [], scan_info.total_stocks = n, scan_info.gainers = 0,
      scan_info.losers = 0, status = ''Success''\<rparr>"

section \<open>The snapshot store\<close>

text \<open>
  C1. Whatever the store held before (in particular after an earlier
  \<open>store_scan_data S1 t1\<close>), once \<open>store_scan_data\<close> has run with snapshot \<open>S2\<close> and time
  \<open>t2\<close>, \<open>get_latest_scan_data\<close> returns exactly \<open>S2\<close>, \<open>get_last_scan_time\<close> returns \<open>t2\<close> and
  \<open>get_next_scan_time\<close> returns \<open>t2\<close> plus 15 minutes (900000000 microseconds): the three
  always belong to the same call.
\<close>

theorem store_scan_data_then_read:
  "get_latest_scan_data (store_scan_data dm S2 t2) = Some S2
   \<and> get_last_scan_time (store_scan_data dm S2 t2) = Some t2
   \<and> get_next_scan_time (store_scan_data dm S2 t2) = Some (t2 + 900000000)
   \<and> get_latest_scan_data (store_scan_data (store_scan_data dm S1 t1) S2 t2) = Some S2
   \<and> get_last_scan_time (store_scan_data (store_scan_data dm S1 t1) S2 t2) = Some t2
   \<and> get_next_scan_time (store_scan_data (store_scan_data dm S1 t1) S2 t2)
       = Some (t2 + 900000000)"
  by (simp add: store_scan_data_def get_latest_scan_data_def get_last_scan_time_def
      get_next_scan_time_def timedelta_minutes_def)

subsection \<open>The bounded history\<close>

lemma slice_from_last:
  "0 < m \<Longrightarrow> slice_from xs (- m) = drop (length xs - nat m) xs"
  by (auto simp: slice_from_def nat_diff_distrib' nat_add_distrib
      intro: arg_cong [where f = "\<lambda>n. drop n xs"])

lemma scan_history_add:
  "0 < max_history_items dm \<Longrightarrow>
   scan_history (add_scan_history dm s) =
     drop (length (scan_history dm @ [s]) - nat (max_history_items dm))
       (scan_history dm @ [s])"
  by (auto simp: add_scan_history_def Let_def slice_from_last)

lemma max_history_items_add [simp]:
  "max_history_items (add_scan_history dm s) = max_history_items dm"
  by (simp add: add_scan_history_def Let_def)

lemma max_history_items_foldl [simp]:
  "max_history_items (foldl add_scan_history dm xs) = max_history_items dm"
  by (induction xs arbitrary: dm) simp_all

lemma drop_last_snoc:
  assumes "0 < (m::nat)"
  shows "drop (length (drop (length ys - m) ys @ [x]) - m) (drop (length ys - m) ys @ [x])
         = drop (length (ys @ [x]) - m) (ys @ [x])"
proof (cases "length ys < m")
  case True
  then show ?thesis by simp
next
  case False
  then have "length (drop (length ys - m) ys) = m" by simp
  with assms False show ?thesis by (simp add: Suc_diff_le)
qed

lemma scan_history_foldl:
  "0 < max_history_items dm \<Longrightarrow>
   scan_history (foldl add_scan_history dm xs) =
     (if xs = [] then scan_history dm
      else drop (length (scan_history dm @ xs) - nat (max_history_items dm))
             (scan_history dm @ xs))"
proof (induction xs rule: rev_induct)
  case Nil
  then show ?case by simp
next
  case (snoc x xs)
  show ?case
  proof (cases "xs = []")
    case True
    with snoc.prems show ?thesis by (simp add: scan_history_add)
  next
    case False
    define m where "m = nat (max_history_items dm)"
    define h where "h = scan_history dm @ xs"
    have m: "0 < m" using snoc.prems by (simp add: m_def)
    from False snoc have
      "scan_history (foldl add_scan_history dm (xs @ [x])) =
         drop (length (drop (length h - m) h @ [x]) - m) (drop (length h - m) h @ [x])"
      by (simp add: scan_history_add m_def h_def)
    also have "\<dots> = drop (length (h @ [x]) - m) (h @ [x])"
      by (rule drop_last_snoc [OF m])
    finally show ?thesis by (simp add: m_def h_def)
  qed
qed

text \<open>
  C4. Starting from a store whose cap \<open>max_history_items\<close> is positive (the constructor sets
  100) and whose history is within the cap (the constructor's is empty), after any sequence
  \<open>xs\<close> of \<open>add_scan_history\<close> calls the history holds at most \<open>max_history_items\<close> entries;
  when more than \<open>max_history_items\<close> entries were appended, \<open>get_scan_history\<close> has exactly
  \<open>max_history_items\<close> entries, and they are the last \<open>max_history_items\<close> of \<open>xs\<close> in the
  order of insertion, oldest first.
\<close>

theorem add_scan_history_bounded:
  assumes "0 < max_history_items dm"
    and "int (length (scan_history dm)) \<le> max_history_items dm"
  shows "int (length (get_scan_history (foldl add_scan_history dm xs))) \<le> max_history_items dm
   \<and> (int (length xs) > max_history_items dm \<longrightarrow>
        int (length (get_scan_history (foldl add_scan_history dm xs))) = max_history_items dm
        \<and> get_scan_history (foldl add_scan_history dm xs)
            = drop (length xs - nat (max_history_items dm)) xs)"
  using assms by (auto simp: get_scan_history_def scan_history_foldl)

theorem add_scan_history_bounded_witness:
  "length (get_scan_history (foldl add_scan_history DataManager_init (map numbered [0..<101])))
     = 100
   \<and> get_scan_history (foldl add_scan_history DataManager_init (map numbered [0..<101]))
     = map numbered [1..<101]"
proof -
  have cap: "0 < max_history_items DataManager_init"
    and fits: "int (length (scan_history DataManager_init)) \<le> max_history_items DataManager_init"
    and more: "int (length (map numbered [0..<101])) > max_history_items DataManager_init"
    by (simp_all add: DataManager_init_def)
  have "drop (length (map numbered [0..<101]) - nat (max_history_items DataManager_init))
          (map numbered [0..<101]) = map numbered [1..<101]"
    by (simp add: DataManager_init_def drop_map)
  with add_scan_history_bounded [OF cap fits, of "map numbered [0..<101]"] more
  show ?thesis by (simp add: DataManager_init_def)
qed

section \<open>Filtering and statistics\<close>

lemma subseq_cond_filter: "subseq (if c then filter P xs else xs) xs"
  by simp

text \<open>
  C5 (as amended). When the stored snapshot is absent or empty, \<open>get_filtered_data\<close> returns
  \<open>None\<close>. For every non-empty stored snapshot and all filter arguments it returns a
  sequence that is a subsequence of the snapshot, in the snapshot's order, in which every
  record has \<open>market_cap\<close> equal to the market cap filter unless that filter is \<open>All\<close>, has
  \<open>sector\<close> equal to the sector filter unless that filter is \<open>All\<close>, and has
  \<open>lo \<le> price \<le> hi\<close>, both ends included.
\<close>

theorem get_filtered_data_sound:
  "(get_latest_scan_data dm = None \<or> get_latest_scan_data dm = Some []
      \<longrightarrow> get_filtered_data dm mc sec (lo, hi) = None)
   \<and> (\<forall>data. get_latest_scan_data dm = Some data \<and> data \<noteq> [] \<longrightarrow>
        (\<exists>ys. get_filtered_data dm mc sec (lo, hi) = Some ys
           \<and> subseq ys data
           \<and> (\<forall>r\<in>set ys. (mc \<noteq> ''All'' \<longrightarrow> quote.market_cap r = mc)
                 \<and> (sec \<noteq> ''All'' \<longrightarrow> quote.sector r = sec)
                 \<and> lo \<le> price r \<and> price r \<le> hi)))"
proof (intro conjI allI impI)
  assume "get_latest_scan_data dm = None \<or> get_latest_scan_data dm = Some []"
  then show "get_filtered_data dm mc sec (lo, hi) = None"
    by (auto simp: get_filtered_data_def)
next
  fix data
  assume a: "get_latest_scan_data dm = Some data \<and> data \<noteq> []"
  let ?c = "if mc \<noteq> ''All'' then filter (\<lambda>r. quote.market_cap r = mc) data else data"
  let ?s = "if sec \<noteq> ''All'' then filter (\<lambda>r. quote.sector r = sec) ?c else ?c"
  let ?p = "filter (\<lambda>r. price r \<ge> lo \<and> price r \<le> hi) ?s"
  have r: "get_filtered_data dm mc sec (lo, hi) = Some ?p"
    using a by (simp add: get_filtered_data_def Let_def)
  have c: "subseq ?c data" by (rule subseq_cond_filter)
  have s: "subseq ?s ?c" by (rule subseq_cond_filter)
  have "subseq ?p ?s" by (rule subseq_filter_left)
  with s c have sub: "subseq ?p data" by (meson subseq_order.order_trans)
  have "\<forall>r\<in>set ?p. (mc \<noteq> ''All'' \<longrightarrow> quote.market_cap r = mc)
                 \<and> (sec \<noteq> ''All'' \<longrightarrow> quote.sector r = sec)
                 \<and> lo \<le> price r \<and> price r \<le> hi"
    by auto
  with r sub show "\<exists>ys. get_filtered_data dm mc sec (lo, hi) = Some ys
           \<and> subseq ys data
           \<and> (\<forall>r\<in>set ys. (mc \<noteq> ''All'' \<longrightarrow> quote.market_cap r = mc)
                 \<and> (sec \<noteq> ''All'' \<longrightarrow> quote.sector r = sec)
                 \<and> lo \<le> price r \<and> price r \<le> hi)"
    by blast
qed

theorem get_filtered_data_sound_witness:
  "\<exists>ys. get_filtered_data (store_scan_data DataManager_init [quote_AAA, quote_BBB] 0)
            ''Small Cap'' ''All'' (0, 100) = Some ys
        \<and> subseq ys [quote_AAA, quote_BBB]
        \<and> list_all (\<lambda>r. quote.market_cap r = ''Small Cap'' \<and> 0 \<le> price r \<and> price r \<le> 100) ys"
proof -
  have h: "get_latest_scan_data (store_scan_data DataManager_init [quote_AAA, quote_BBB] 0)
             = Some [quote_AAA, quote_BBB] \<and> [quote_AAA, quote_BBB] \<noteq> []"
    by (simp add: get_latest_scan_data_def store_scan_data_def)
  from get_filtered_data_sound
         [of "store_scan_data DataManager_init [quote_AAA, quote_BBB] 0" "''Small Cap''" "''All''"
             0 100, THEN conjunct2, rule_format, OF h]
  show ?thesis by (auto simp: list_all_iff)
qed

text \<open>
  An empty snapshot can be stored, and then \<open>get_filtered_data\<close> does not return the empty
  sequence: it returns \<open>None\<close>, as it does when no snapshot was stored at all.
\<close>

theorem get_filtered_data_empty_counterexample:
  "get_latest_scan_data (store_scan_data DataManager_init [] 0) = Some []
   \<and> get_filtered_data (store_scan_data DataManager_init [] 0) ''All'' ''All'' (0, 10000) = None"
  by (simp add: get_filtered_data_def get_latest_scan_data_def store_scan_data_def)

text \<open>
  C6. For every non-empty stored snapshot, \<open>get_filtered_data\<close> with both filters \<open>All\<close> and a
  price range that covers the price of every record returns a sequence equal, as a multiset,
  to the stored snapshot (it is the snapshot itself).
\<close>

theorem get_filtered_data_all:
  assumes "get_latest_scan_data dm = Some data" and "data \<noteq> []"
    and "\<forall>r\<in>set data. lo \<le> price r \<and> price r \<le> hi"
  shows "map_option mset (get_filtered_data dm ''All'' ''All'' (lo, hi)) = Some (mset data)
         \<and> get_filtered_data dm ''All'' ''All'' (lo, hi) = Some data"
proof -
  from assms(3) have "filter (\<lambda>r. price r \<ge> lo \<and> price r \<le> hi) data = data"
    by (simp add: filter_id_conv)
  with assms(1,2) show ?thesis by (simp add: get_filtered_data_def)
qed

theorem get_filtered_data_all_witness:
  "map_option mset
     (get_filtered_data (store_scan_data DataManager_init [quote_AAA, quote_BBB] 0)
        ''All'' ''All'' (0, 10000))
   = Some (mset [quote_AAA, quote_BBB])"
proof -
  have stored: "get_latest_scan_data (store_scan_data DataManager_init [quote_AAA, quote_BBB] 0)
                  = Some [quote_AAA, quote_BBB]"
    by (simp add: get_latest_scan_data_def store_scan_data_def)
  have nonempty: "[quote_AAA, quote_BBB] \<noteq> []"
    by simp
  have covered: "\<forall>r\<in>set [quote_AAA, quote_BBB]. 0 \<le> price r \<and> price r \<le> 10000"
    by simp
  from get_filtered_data_all [OF stored nonempty covered] show ?thesis
    by (rule conjunct1)
qed

subsection \<open>The extrema of a column\<close>

lemma idxmax_from_first_max:
  assumes "col = pre @ xs" and "i = length pre" and "best < i" and "col ! best = v"
    and "\<forall>j<i. col ! j \<le> v" and "\<forall>j<best. col ! j < v"
  shows "idxmax_from xs i best v < length col
         \<and> (\<forall>j<length col. col ! j \<le> col ! idxmax_from xs i best v)
         \<and> (\<forall>j<idxmax_from xs i best v. col ! j < col ! idxmax_from xs i best v)"
  using assms
proof (induction xs arbitrary: pre i best v)
  case Nil
  then show ?case by simp
next
  case (Cons x xs)
  have xi: "col ! i = x" using Cons.prems(1,2) by simp
  have col: "col = (pre @ [x]) @ xs" "Suc i = length (pre @ [x])" using Cons.prems(1,2) by simp_all
  show ?case
  proof (cases "x > v")
    case True
    have a: "\<forall>j<Suc i. col ! j \<le> x"
      using Cons.prems(5) True xi by (auto simp: less_Suc_eq intro: order.trans less_imp_le)
    have b: "\<forall>j<i. col ! j < x"
      using Cons.prems(5) True by (auto intro: le_less_trans)
    from Cons.IH [OF col _ xi a b] True show ?thesis by simp
  next
    case False
    have a: "\<forall>j<Suc i. col ! j \<le> v"
      using Cons.prems(5) False xi by (auto simp: less_Suc_eq)
    have c: "best < Suc i" using Cons.prems(3) by simp
    from Cons.IH [OF col c Cons.prems(4) a Cons.prems(6)] False show ?thesis by simp
  qed
qed

lemma idxmin_from_first_min:
  assumes "col = pre @ xs" and "i = length pre" and "best < i" and "col ! best = v"
    and "\<forall>j<i. v \<le> col ! j" and "\<forall>j<best. v < col ! j"
  shows "idxmin_from xs i best v < length col
         \<and> (\<forall>j<length col. col ! idxmin_from xs i best v \<le> col ! j)
         \<and> (\<forall>j<idxmin_from xs i best v. col ! idxmin_from xs i best v < col ! j)"
  using assms
proof (induction xs arbitrary: pre i best v)
  case Nil
  then show ?case by simp
next
  case (Cons x xs)
  have xi: "col ! i = x" using Cons.prems(1,2) by simp
  have col: "col = (pre @ [x]) @ xs" "Suc i = length (pre @ [x])" using Cons.prems(1,2) by simp_all
  show ?case
  proof (cases "x < v")
    case True
    have a: "\<forall>j<Suc i. x \<le> col ! j"
      using Cons.prems(5) True xi by (auto simp: less_Suc_eq intro: order.trans less_imp_le)
    have b: "\<forall>j<i. x < col ! j"
      using Cons.prems(5) True by (auto intro: less_le_trans)
    from Cons.IH [OF col _ xi a b] True show ?thesis by simp
  next
    case False
    have a: "\<forall>j<Suc i. v \<le> col ! j"
      using Cons.prems(5) False xi by (auto simp: less_Suc_eq)
    have c: "best < Suc i" using Cons.prems(3) by simp
    from Cons.IH [OF col c Cons.prems(4) a Cons.prems(6)] False show ?thesis by simp
  qed
qed

lemma idxmax_first_max:
  assumes "col \<noteq> []"
  shows "\<exists>i. idxmax col = Some i \<and> i < length col
         \<and> (\<forall>j<length col. col ! j \<le> col ! i) \<and> (\<forall>j<i. col ! j < col ! i)"
proof -
  from assms obtain x xs where col: "col = x # xs" by (cases col) auto
  have "idxmax_from xs 1 0 x < length col
         \<and> (\<forall>j<length col. col ! j \<le> col ! idxmax_from xs 1 0 x)
         \<and> (\<forall>j<idxmax_from xs 1 0 x. col ! j < col ! idxmax_from xs 1 0 x)"
    by (rule idxmax_from_first_max [where pre = "[x]"]) (simp_all add: col)
  then show ?thesis by (simp add: idxmax_def col)
qed

lemma idxmin_first_min:
  assumes "col \<noteq> []"
  shows "\<exists>i. idxmin col = Some i \<and> i < length col
         \<and> (\<forall>j<length col. col ! i \<le> col ! j) \<and> (\<forall>j<i. col ! i < col ! j)"
proof -
  from assms obtain x xs where col: "col = x # xs" by (cases col) auto
  have "idxmin_from xs 1 0 x < length col
         \<and> (\<forall>j<length col. col ! idxmin_from xs 1 0 x \<le> col ! j)
         \<and> (\<forall>j<idxmin_from xs 1 0 x. col ! idxmin_from xs 1 0 x < col ! j)"
    by (rule idxmin_from_first_min [where pre = "[x]"]) (simp_all add: col)
  then show ?thesis by (simp add: idxmin_def col)
qed

text \<open>
  C7. On an absent or empty snapshot \<open>get_statistics\<close> returns \<open>total_stocks = 0\<close>,
  \<open>gainers = 0\<close>, \<open>losers = 0\<close>, \<open>avg_volume = 0\<close> and neither \<open>top_gainer\<close> nor \<open>top_loser\<close>.
  On a non-empty snapshot \<open>top_gainer\<close> is a record whose \<open>change_percent\<close> is the maximum
  of the snapshot and \<open>top_loser\<close> one whose \<open>change_percent\<close> is the minimum; among equal
  values each is the first in snapshot order: every record before it is strictly worse.
\<close>

theorem get_statistics_extrema:
  "(get_latest_scan_data dm = None \<or> get_latest_scan_data dm = Some [] \<longrightarrow>
      get_statistics dm =
        \<lparr>statistics.total_stocks = 0, statistics.gainers = 0, statistics.losers = 0,
         avg_volume = 0, top_gainer = None, top_loser = None\<rparr>)
   \<and> (\<forall>data. get_latest_scan_data dm = Some data \<and> data \<noteq> [] \<longrightarrow>
        (\<exists>g<length data. top_gainer (get_statistics dm) = Some (data ! g)
            \<and> (\<forall>j<length data. change_percent (data ! j) \<le> change_percent (data ! g))
            \<and> (\<forall>j<g. change_percent (data ! j) < change_percent (data ! g)))
      \<and> (\<exists>l<length data. top_loser (get_statistics dm) = Some (data ! l)
            \<and> (\<forall>j<length data. change_percent (data ! l) \<le> change_percent (data ! j))
            \<and> (\<forall>j<l. change_percent (data ! l) < change_percent (data ! j))))"
proof (intro conjI allI impI)
  assume "get_latest_scan_data dm = None \<or> get_latest_scan_data dm = Some []"
  then show "get_statistics dm =
        \<lparr>statistics.total_stocks = 0, statistics.gainers = 0, statistics.losers = 0,
         avg_volume = 0, top_gainer = None, top_loser = None\<rparr>"
    by (auto simp: get_statistics_def)
next
  fix data
  assume a: "get_latest_scan_data dm = Some data \<and> data \<noteq> []"
  then have ne: "map change_percent data \<noteq> []" by simp
  from idxmax_first_max [OF ne] obtain g where g: "idxmax (map change_percent data) = Some g"
    "g < length data" "\<forall>j<length data. map change_percent data ! j \<le> map change_percent data ! g"
    "\<forall>j<g. map change_percent data ! j < map change_percent data ! g"
    by auto
  have "top_gainer (get_statistics dm) = Some (data ! g)"
    using a g(1,2) by (simp add: get_statistics_def loc_def)
  moreover have "\<forall>j<length data. change_percent (data ! j) \<le> change_percent (data ! g)"
    using g(2,3) by simp
  moreover have "\<forall>j<g. change_percent (data ! j) < change_percent (data ! g)"
    using g(2,4) by simp
  ultimately show "\<exists>g<length data. top_gainer (get_statistics dm) = Some (data ! g)
            \<and> (\<forall>j<length data. change_percent (data ! j) \<le> change_percent (data ! g))
            \<and> (\<forall>j<g. change_percent (data ! j) < change_percent (data ! g))"
    using g(2) by blast
next
  fix data
  assume a: "get_latest_scan_data dm = Some data \<and> data \<noteq> []"
  then have ne: "map change_percent data \<noteq> []" by simp
  from idxmin_first_min [OF ne] obtain l where l: "idxmin (map change_percent data) = Some l"
    "l < length data" "\<forall>j<length data. map change_percent data ! l \<le> map change_percent data ! j"
    "\<forall>j<l. map change_percent data ! l < map change_percent data ! j"
    by auto
  have "top_loser (get_statistics dm) = Some (data ! l)"
    using a l(1,2) by (simp add: get_statistics_def loc_def)
  moreover have "\<forall>j<length data. change_percent (data ! l) \<le> change_percent (data ! j)"
    using l(2,3) by simp
  moreover have "\<forall>j<l. change_percent (data ! l) < change_percent (data ! j)"
    using l(2,4) by simp
  ultimately show "\<exists>l<length data. top_loser (get_statistics dm) = Some (data ! l)
            \<and> (\<forall>j<length data. change_percent (data ! l) \<le> change_percent (data ! j))
            \<and> (\<forall>j<l. change_percent (data ! l) < change_percent (data ! j))"
    using l(2) by blast
qed

theorem get_statistics_extrema_witness:
  "get_statistics DataManager_init =
     \<lparr>statistics.total_stocks = 0, statistics.gainers = 0, statistics.losers = 0,
      avg_volume = 0, top_gainer = None, top_loser = None\<rparr>
   \<and> top_gainer (get_statistics (store_scan_data DataManager_init [quote_AAA, quote_BBB] 0))
       = Some quote_AAA
   \<and> top_loser (get_statistics (store_scan_data DataManager_init [quote_AAA, quote_BBB] 0))
       = Some quote_BBB"
proof -
  have none: "get_latest_scan_data DataManager_init = None
              \<or> get_latest_scan_data DataManager_init = Some []"
    by (simp add: get_latest_scan_data_def DataManager_init_def)
  have h: "get_latest_scan_data (store_scan_data DataManager_init [quote_AAA, quote_BBB] 0)
             = Some [quote_AAA, quote_BBB] \<and> [quote_AAA, quote_BBB] \<noteq> []"
    by (simp add: get_latest_scan_data_def store_scan_data_def)
  note full = get_statistics_extrema
         [of "store_scan_data DataManager_init [quote_AAA, quote_BBB] 0", THEN conjunct2,
          rule_format, OF h]
  from full [THEN conjunct1] obtain g where g: "g < length [quote_AAA, quote_BBB]"
    "top_gainer (get_statistics (store_scan_data DataManager_init [quote_AAA, quote_BBB] 0))
       = Some ([quote_AAA, quote_BBB] ! g)"
    "\<forall>j<length [quote_AAA, quote_BBB]. change_percent ([quote_AAA, quote_BBB] ! j)
              \<le> change_percent ([quote_AAA, quote_BBB] ! g)"
    by blast
  from g(1) have "g = 0 \<or> g = 1" by auto
  moreover from g(3) [rule_format, of 0] have "change_percent ([quote_AAA, quote_BBB] ! 0)
              \<le> change_percent ([quote_AAA, quote_BBB] ! g)"
    by simp
  ultimately have "g = 0" by auto
  from full [THEN conjunct2] obtain l where l: "l < length [quote_AAA, quote_BBB]"
    "top_loser (get_statistics (store_scan_data DataManager_init [quote_AAA, quote_BBB] 0))
       = Some ([quote_AAA, quote_BBB] ! l)"
    "\<forall>j<length [quote_AAA, quote_BBB]. change_percent ([quote_AAA, quote_BBB] ! l)
              \<le> change_percent ([quote_AAA, quote_BBB] ! j)"
    by blast
  from l(1) have "l = 0 \<or> l = 1" by auto
  moreover from l(3) [rule_format, of 1] have "change_percent ([quote_AAA, quote_BBB] ! l)
              \<le> change_percent ([quote_AAA, quote_BBB] ! 1)"
    by simp
  ultimately have "l = 1" by auto
  from get_statistics_extrema [of DataManager_init, THEN conjunct1, rule_format, OF none]
    g(2) l(2) \<open>g = 0\<close> \<open>l = 1\<close>
  show ?thesis by simp
qed

section \<open>The scan cycle\<close>

lemma scan_history_add_room:
  "int (length (scan_history dm)) < max_history_items dm \<Longrightarrow>
   scan_history (add_scan_history dm s) = scan_history dm @ [s]"
  by (simp add: add_scan_history_def Let_def)

lemma add_scan_history_fields [simp]:
  "current_scan_data (add_scan_history dm s) = current_scan_data dm"
  "DataManager.last_scan_time (add_scan_history dm s) = DataManager.last_scan_time dm"
  "DataManager.next_scan_time (add_scan_history dm s) = DataManager.next_scan_time dm"
  by (simp_all add: add_scan_history_def Let_def)

lemma scan_history_add_store:
  "scan_history (add_scan_history (store_scan_data dm recs t) s) = scan_history (add_scan_history dm s)"
  by (simp add: add_scan_history_def store_scan_data_def Let_def)

lemma gainers_losers_le:
  "length (filter (\<lambda>s. change_percent s > 0) xs) + length (filter (\<lambda>s. change_percent s < 0) xs) \<le> length xs"
  by (induction xs) auto

text \<open>
  C2. In a scan cycle whose fetch step raises an error, \<open>_perform_scan\<close> makes exactly one
  \<open>add_scan_history\<close> call on the store, with a summary whose status is the error text and
  whose counts are 0 (so the history gains exactly that entry when it has room), and
  changes nothing else: \<open>total_scans\<close>, the last and next scan times of the scanner and of
  the store, and the stored snapshot keep their values.
\<close>

theorem perform_scan_fetch_error:
  "data_manager (fst (perform_scan self t0 (Inl e) t1)) =
     add_scan_history (data_manager self)
       \<lparr>scan_info.scan_time = strftime t1, scan_info.total_stocks = 0, scan_info.gainers = 0,
        scan_info.losers = 0, status = ''Error: '' @ e\<rparr>
   \<and> (int (length (get_scan_history (data_manager self))) < max_history_items (data_manager self) \<longrightarrow>
        get_scan_history (data_manager (fst (perform_scan self t0 (Inl e) t1))) =
          get_scan_history (data_manager self) @
            [\<lparr>scan_info.scan_time = strftime t1, scan_info.total_stocks = 0, scan_info.gainers = 0,
              scan_info.losers = 0, status = ''Error: '' @ e\<rparr>])
   \<and> total_scans (fst (perform_scan self t0 (Inl e) t1)) = total_scans self
   \<and> StockScanner.last_scan_time (fst (perform_scan self t0 (Inl e) t1)) = StockScanner.last_scan_time self
   \<and> StockScanner.next_scan_time (fst (perform_scan self t0 (Inl e) t1)) = StockScanner.next_scan_time self
   \<and> get_last_scan_time (data_manager (fst (perform_scan self t0 (Inl e) t1))) = get_last_scan_time (data_manager self)
   \<and> get_next_scan_time (data_manager (fst (perform_scan self t0 (Inl e) t1))) = get_next_scan_time (data_manager self)
   \<and> get_latest_scan_data (data_manager (fst (perform_scan self t0 (Inl e) t1))) = get_latest_scan_data (data_manager self)"
  by (simp add: perform_scan_def get_last_scan_time_def get_next_scan_time_def
      get_latest_scan_data_def get_scan_history_def scan_history_add_room)

theorem perform_scan_fetch_error_witness:
  "get_scan_history (data_manager
      (fst (perform_scan (StockScanner_init DataManager_init) 0 (Inl ''timed out'') 1))) =
     [\<lparr>scan_info.scan_time = strftime 1, scan_info.total_stocks = 0, scan_info.gainers = 0,
       scan_info.losers = 0, status = ''Error: timed out''\<rparr>]
   \<and> total_scans (fst (perform_scan (StockScanner_init DataManager_init) 0 (Inl ''timed out'') 1))
       = 0
   \<and> get_latest_scan_data (data_manager
        (fst (perform_scan (StockScanner_init DataManager_init) 0 (Inl ''timed out'') 1))) = None"
proof -
  have room: "int (length (get_scan_history (data_manager (StockScanner_init DataManager_init))))
                < max_history_items (data_manager (StockScanner_init DataManager_init))"
    by (simp add: StockScanner_init_def DataManager_init_def get_scan_history_def)
  note cycle = perform_scan_fetch_error [of "StockScanner_init DataManager_init" 0 "''timed out''" 1]
  from cycle room have history:
    "get_scan_history (data_manager
       (fst (perform_scan (StockScanner_init DataManager_init) 0 (Inl ''timed out'') 1))) =
     get_scan_history (data_manager (StockScanner_init DataManager_init)) @
       [\<lparr>scan_info.scan_time = strftime 1, scan_info.total_stocks = 0, scan_info.gainers = 0,
         scan_info.losers = 0, status = ''Error: '' @ ''timed out''\<rparr>]"
    by blast
  from cycle have scans:
    "total_scans (fst (perform_scan (StockScanner_init DataManager_init) 0 (Inl ''timed out'') 1))
       = total_scans (StockScanner_init DataManager_init)"
    by blast
  from cycle have snapshot:
    "get_latest_scan_data (data_manager
       (fst (perform_scan (StockScanner_init DataManager_init) 0 (Inl ''timed out'') 1)))
     = get_latest_scan_data (data_manager (StockScanner_init DataManager_init))"
    by blast
  show ?thesis
    unfolding history scans snapshot
    by (simp add: StockScanner_init_def DataManager_init_def get_scan_history_def
        get_latest_scan_data_def)
qed

text \<open>
  C3. In a scan cycle whose fetch step returns a non-empty list of \<open>N\<close> records,
  \<open>_perform_scan\<close> stores that list as the new snapshot with the start time of the cycle (so
  the store's next scan time is 15 minutes later), increments \<open>total_scans\<close> by exactly 1,
  sets the scanner's own last and next scan times, and makes exactly one \<open>add_scan_history\<close>
  call, with a \<open>Success\<close> summary whose \<open>total_stocks\<close> is \<open>N\<close>, whose \<open>gainers\<close> is the number
  of records with \<open>change_percent > 0\<close> and whose \<open>losers\<close> is the number of records with
  \<open>change_percent < 0\<close>; hence \<open>gainers + losers \<le> N\<close>.
\<close>

theorem perform_scan_success:
  assumes "stock_data \<noteq> []"
  shows "get_latest_scan_data (data_manager (fst (perform_scan self t0 (Inr stock_data) t1))) = Some stock_data
   \<and> get_last_scan_time (data_manager (fst (perform_scan self t0 (Inr stock_data) t1))) = Some t0
   \<and> get_next_scan_time (data_manager (fst (perform_scan self t0 (Inr stock_data) t1))) = Some (t0 + 900000000)
   \<and> total_scans (fst (perform_scan self t0 (Inr stock_data) t1)) = total_scans self + 1
   \<and> StockScanner.last_scan_time (fst (perform_scan self t0 (Inr stock_data) t1)) = Some t0
   \<and> StockScanner.next_scan_time (fst (perform_scan self t0 (Inr stock_data) t1))
        = Some (t0 + scan_interval_minutes self * 60000000)
   \<and> get_scan_history (data_manager (fst (perform_scan self t0 (Inr stock_data) t1))) =
        get_scan_history (add_scan_history (data_manager self)
          \<lparr>scan_info.scan_time = strftime t0,
           scan_info.total_stocks = length stock_data,
           scan_info.gainers = length (filter (\<lambda>s. change_percent s > 0) stock_data),
           scan_info.losers = length (filter (\<lambda>s. change_percent s < 0) stock_data),
           status = ''Success''\<rparr>)
   \<and> (int (length (get_scan_history (data_manager self))) < max_history_items (data_manager self) \<longrightarrow>
        get_scan_history (data_manager (fst (perform_scan self t0 (Inr stock_data) t1))) =
          get_scan_history (data_manager self) @
          [\<lparr>scan_info.scan_time = strftime t0,
           scan_info.total_stocks = length stock_data,
           scan_info.gainers = length (filter (\<lambda>s. change_percent s > 0) stock_data),
           scan_info.losers = length (filter (\<lambda>s. change_percent s < 0) stock_data),
           status = ''Success''\<rparr>])
   \<and> length (filter (\<lambda>s. change_percent s > 0) stock_data)
       + length (filter (\<lambda>s. change_percent s < 0) stock_data) \<le> length stock_data"
proof -
  have st: "scan_history (store_scan_data (data_manager self) stock_data t0) = scan_history (data_manager self)"
    "max_history_items (store_scan_data (data_manager self) stock_data t0) = max_history_items (data_manager self)"
    by (simp_all add: store_scan_data_def)
  show ?thesis
    using assms gainers_losers_le [of stock_data]
    by (simp add: perform_scan_def Let_def get_last_scan_time_def get_next_scan_time_def
      get_latest_scan_data_def get_scan_history_def scan_history_add_store scan_history_add_room st
      timedelta_minutes_def)
      (simp add: store_scan_data_def timedelta_minutes_def)
qed

theorem perform_scan_success_witness:
  "get_latest_scan_data (data_manager
      (fst (perform_scan (StockScanner_init DataManager_init) 7 (Inr [quote_AAA, quote_BBB]) 9)))
     = Some [quote_AAA, quote_BBB]
   \<and> total_scans
       (fst (perform_scan (StockScanner_init DataManager_init) 7 (Inr [quote_AAA, quote_BBB]) 9))
     = 1
   \<and> get_scan_history (data_manager
       (fst (perform_scan (StockScanner_init DataManager_init) 7 (Inr [quote_AAA, quote_BBB]) 9)))
     = [\<lparr>scan_info.scan_time = strftime 7, scan_info.total_stocks = 2, scan_info.gainers = 1,
         scan_info.losers = 1, status = ''Success''\<rparr>]"
proof -
  have nonempty: "[quote_AAA, quote_BBB] \<noteq> []"
    by simp
  have room: "int (length (get_scan_history (data_manager (StockScanner_init DataManager_init))))
                < max_history_items (data_manager (StockScanner_init DataManager_init))"
    by (simp add: StockScanner_init_def DataManager_init_def get_scan_history_def)
  note cycle = perform_scan_success [OF nonempty, of "StockScanner_init DataManager_init" 7 9]
  from cycle have snapshot:
    "get_latest_scan_data (data_manager
       (fst (perform_scan (StockScanner_init DataManager_init) 7 (Inr [quote_AAA, quote_BBB]) 9)))
     = Some [quote_AAA, quote_BBB]"
    by blast
  from cycle have scans:
    "total_scans
       (fst (perform_scan (StockScanner_init DataManager_init) 7 (Inr [quote_AAA, quote_BBB]) 9))
     = total_scans (StockScanner_init DataManager_init) + 1"
    by blast
  from cycle room have history:
    "get_scan_history (data_manager
       (fst (perform_scan (StockScanner_init DataManager_init) 7 (Inr [quote_AAA, quote_BBB]) 9)))
     = get_scan_history (data_manager (StockScanner_init DataManager_init)) @
         [\<lparr>scan_info.scan_time = strftime 7,
           scan_info.total_stocks = length [quote_AAA, quote_BBB],
           scan_info.gainers = length (filter (\<lambda>s. change_percent s > 0) [quote_AAA, quote_BBB]),
           scan_info.losers = length (filter (\<lambda>s. change_percent s < 0) [quote_AAA, quote_BBB]),
           status = ''Success''\<rparr>]"
    by blast
  show ?thesis
    unfolding history scans snapshot
    by (simp add: StockScanner_init_def DataManager_init_def get_scan_history_def)
qed

text \<open>
  C8 (as amended). In a scan cycle whose fetch step raises an error, or returns a non-empty
  list, \<open>_perform_scan\<close> appends exactly one summary: the history afterwards is that of one
  \<open>add_scan_history\<close> call with the summary of the cycle, one entry longer when it had
  room. In a scan cycle whose fetch step returns an empty list no summary is appended: the
  scanner and its store are as they were.
\<close>

theorem perform_scan_history:
  "get_scan_history (data_manager (fst (perform_scan self t0 fetched t1))) =
     (case fetched of
        Inl e \<Rightarrow>
          get_scan_history (add_scan_history (data_manager self)
            \<lparr>scan_info.scan_time = strftime t1, scan_info.total_stocks = 0,
             scan_info.gainers = 0, scan_info.losers = 0, status = ''Error: '' @ e\<rparr>)
      | Inr stock_data \<Rightarrow>
          if stock_data \<noteq> [] then
            get_scan_history (add_scan_history (data_manager self)
              \<lparr>scan_info.scan_time = strftime t0,
               scan_info.total_stocks = length stock_data,
               scan_info.gainers = length (filter (\<lambda>s. change_percent s > 0) stock_data),
               scan_info.losers = length (filter (\<lambda>s. change_percent s < 0) stock_data),
               status = ''Success''\<rparr>)
          else get_scan_history (data_manager self))
   \<and> (int (length (get_scan_history (data_manager self)))
         < max_history_items (data_manager self) \<longrightarrow>
       length (get_scan_history (data_manager (fst (perform_scan self t0 fetched t1)))) =
         (case fetched of
            Inl e \<Rightarrow> length (get_scan_history (data_manager self)) + 1
          | Inr stock_data \<Rightarrow>
              if stock_data \<noteq> [] then length (get_scan_history (data_manager self)) + 1
              else length (get_scan_history (data_manager self))))
   \<and> fst (perform_scan self t0 (Inr []) t1) = self"
proof (cases fetched)
  case (Inl e)
  then show ?thesis
    by (simp add: perform_scan_def get_scan_history_def scan_history_add_room)
next
  case (Inr stock_data)
  show ?thesis
  proof (cases "stock_data = []")
    case True
    with Inr show ?thesis
      by (simp add: perform_scan_def)
  next
    case False
    have "int (length (scan_history (data_manager self))) < max_history_items (data_manager self)
          \<Longrightarrow> length (scan_history (add_scan_history (data_manager self) info))
                = Suc (length (scan_history (data_manager self)))" for info
      by (simp add: scan_history_add_room)
    with Inr False show ?thesis
      by (simp add: perform_scan_def Let_def get_scan_history_def scan_history_add_store)
  qed
qed

theorem perform_scan_history_witness:
  "length (get_scan_history (data_manager
      (fst (perform_scan (StockScanner_init DataManager_init) 0 (Inl ''timed out'') 1)))) = 1
   \<and> length (get_scan_history (data_manager
      (fst (perform_scan (StockScanner_init DataManager_init) 0 (Inr [quote_AAA]) 1)))) = 1
   \<and> length (get_scan_history (data_manager
      (fst (perform_scan (StockScanner_init DataManager_init) 0 (Inr []) 1)))) = 0"
proof -
  have room: "int (length (get_scan_history (data_manager (StockScanner_init DataManager_init))))
                < max_history_items (data_manager (StockScanner_init DataManager_init))"
    and empty: "length (get_scan_history (data_manager (StockScanner_init DataManager_init))) = 0"
    by (simp_all add: StockScanner_init_def DataManager_init_def get_scan_history_def)
  from perform_scan_history
         [of "StockScanner_init DataManager_init" 0 "Inl ''timed out''" 1,
          THEN conjunct2, THEN conjunct1, rule_format, OF room]
  have failed: "length (get_scan_history (data_manager
      (fst (perform_scan (StockScanner_init DataManager_init) 0 (Inl ''timed out'') 1)))) = 1"
    by (simp add: empty)
  from perform_scan_history
         [of "StockScanner_init DataManager_init" 0 "Inr [quote_AAA]" 1,
          THEN conjunct2, THEN conjunct1, rule_format, OF room]
  have stored: "length (get_scan_history (data_manager
      (fst (perform_scan (StockScanner_init DataManager_init) 0 (Inr [quote_AAA]) 1)))) = 1"
    by (simp add: empty)
  from perform_scan_history
         [of "StockScanner_init DataManager_init" 0 "Inr []" 1,
          THEN conjunct2, THEN conjunct1, rule_format, OF room]
  have skipped: "length (get_scan_history (data_manager
      (fst (perform_scan (StockScanner_init DataManager_init) 0 (Inr []) 1)))) = 0"
    by (simp add: empty)
  from failed stored skipped show ?thesis by simp
qed

text \<open>
  A scan cycle of a new scanner whose fetch step returns the empty list: the history is
  empty before the cycle and empty after it.
\<close>

theorem perform_scan_empty_counterexample:
  "get_scan_history (data_manager (StockScanner_init DataManager_init)) = []
   \<and> get_scan_history (data_manager
        (fst (perform_scan (StockScanner_init DataManager_init) 0 (Inr []) 0))) = []"
  by (simp add: perform_scan_def get_scan_history_def StockScanner_init_def DataManager_init_def)

section \<open>The built-in data source\<close>

lemma fetch_loop_rows:
  "fetch_loop sts i rng ct acc =
     acc @ map (\<lambda>(k, st). case rng k of (base_price, change, vol) \<Rightarrow>
                 \<lparr>quote.symbol = stock.symbol st, quote.name = stock.name st,
                  price = round2 base_price, change_percent = round2 change, volume = vol,
                  quote.market_cap = stock.market_cap st, quote.sector = stock.sector st,
                  quote.scan_time = strftime ct\<rparr>)
             (zip [i..<i + length sts] sts)"
proof (induction sts arbitrary: i acc)
  case Nil
  then show ?case by simp
next
  case (Cons st rest)
  have "[i..<i + length (st # rest)] = i # [Suc i..<Suc i + length rest]"
    by (subst upt_rec) simp
  then show ?case by (simp add: Cons.IH split: prod.splits)
qed

lemma length_sample_stocks: "length sample_stocks = 20"
  by (simp add: sample_stocks_def)

lemma distinct_sample_symbols: "distinct (map stock.symbol sample_stocks)"
  by (simp add: sample_stocks_def)

lemma length_fetch_stock_data: "length (fetch_stock_data ct rng) = 20"
  by (simp add: fetch_stock_data_def fetch_loop_rows length_sample_stocks)

lemma fetch_stock_data_row:
  assumes "r \<in> set (fetch_stock_data ct rng)"
  shows "\<exists>k<20. quote.symbol r = stock.symbol (sample_stocks ! k)
          \<and> price r = round2 (fst (rng k)) \<and> change_percent r = round2 (fst (snd (rng k)))
          \<and> volume r = snd (snd (rng k)) \<and> quote.scan_time r = strftime ct"
proof -
  from assms obtain k st where ks: "(k, st) \<in> set (zip [0..<20] sample_stocks)"
    and r: "r = (case rng k of (base_price, change, vol) \<Rightarrow>
                 \<lparr>quote.symbol = stock.symbol st, quote.name = stock.name st,
                  price = round2 base_price, change_percent = round2 change, volume = vol,
                  quote.market_cap = stock.market_cap st, quote.sector = stock.sector st,
                  quote.scan_time = strftime ct\<rparr>)"
    by (auto simp: fetch_stock_data_def fetch_loop_rows length_sample_stocks)
  from ks have "k < 20 \<and> st = sample_stocks ! k"
    by (auto simp: set_zip length_sample_stocks)
  with r show ?thesis by (auto split: prod.splits)
qed

lemma symbols_fetch_stock_data:
  "map quote.symbol (fetch_stock_data ct rng) = map stock.symbol sample_stocks"
proof -
  have "map quote.symbol (map (\<lambda>(k, st). case rng k of (base_price, change, vol) \<Rightarrow>
                 \<lparr>quote.symbol = stock.symbol st, quote.name = stock.name st,
                  price = round2 base_price, change_percent = round2 change, volume = vol,
                  quote.market_cap = stock.market_cap st, quote.sector = stock.sector st,
                  quote.scan_time = strftime ct\<rparr>) (zip [0..<length sample_stocks] sample_stocks))
        = map (stock.symbol \<circ> snd) (zip [0..<length sample_stocks] sample_stocks)"
    by (auto split: prod.splits)
  also have "\<dots> = map stock.symbol (map snd (zip [0..<length sample_stocks] sample_stocks))"
    by (simp only: map_map)
  also have "\<dots> = map stock.symbol sample_stocks"
    by (simp add: map_snd_zip)
  finally show ?thesis by (simp add: fetch_stock_data_def fetch_loop_rows)
qed

lemma round2_bounds:
  assumes "of_int a \<le> x" and "x \<le> of_int b"
  shows "of_int a \<le> round2 x \<and> round2 x \<le> of_int b"
proof -
  define y where "y = x * 100"
  define f where "f = \<lfloor>y\<rfloor>"
  define n where "n = (if y - of_int f < 1 / 2 then f else if y - of_int f > 1 / 2 then f + 1
               else if even f then f else f + 1)"
  have r: "round2 x = of_int n / 100"
    by (simp add: round2_def Let_def y_def f_def n_def)
  have "of_int (a * 100) \<le> y" using assms(1) by (simp add: y_def)
  then have lo: "a * 100 \<le> f" unfolding f_def by (simp add: le_floor_iff)
  have yb: "y \<le> of_int (b * 100)" using assms(2) by (simp add: y_def)
  then have hi: "f \<le> b * 100" unfolding f_def by (metis floor_mono floor_of_int)
  have n_lo: "f \<le> n" by (simp add: n_def)
  have n_hi: "n \<le> b * 100"
  proof (cases "f = b * 100")
    case True
    have "of_int f \<le> y" unfolding f_def by simp
    with yb True have "y = of_int f" by simp
    then show ?thesis using True by (simp add: n_def)
  next
    case False
    with hi have "f + 1 \<le> b * 100" by simp
    then show ?thesis by (simp add: n_def)
  qed
  from lo n_lo have "a * 100 \<le> n" by simp
  then have "(of_int (a * 100) :: rat) \<le> of_int n" by (simp only: of_int_le_iff)
  then have 1: "of_int a \<le> round2 x" by (simp add: r)
  from n_hi have "(of_int n :: rat) \<le> of_int (b * 100)" by (simp only: of_int_le_iff)
  then have 2: "round2 x \<le> of_int b" by (simp add: r)
  from 1 2 show ?thesis by simp
qed

text \<open>
  C9. All records of a snapshot returned by one call of \<open>_fetch_stock_data\<close> have the same
  \<open>scan_time\<close>, the formatted clock reading taken once before the loop.
\<close>

theorem fetch_stock_data_scan_time:
  "\<forall>r\<in>set (fetch_stock_data ct rng). \<forall>r'\<in>set (fetch_stock_data ct rng).
     quote.scan_time r = quote.scan_time r' \<and> quote.scan_time r = strftime ct"
proof (intro ballI)
  fix r r'
  assume "r \<in> set (fetch_stock_data ct rng)" and "r' \<in> set (fetch_stock_data ct rng)"
  then have "quote.scan_time r = strftime ct" and "quote.scan_time r' = strftime ct"
    using fetch_stock_data_row by blast+
  then show "quote.scan_time r = quote.scan_time r' \<and> quote.scan_time r = strftime ct"
    by simp
qed

theorem fetch_stock_data_scan_time_witness:
  "quote.scan_time (hd (fetch_stock_data 0 (\<lambda>i. (1500, 5 / 2, 500000))))
     = quote.scan_time (last (fetch_stock_data 0 (\<lambda>i. (1500, 5 / 2, 500000))))"
proof -
  have "fetch_stock_data 0 (\<lambda>i. (1500, 5 / 2, 500000)) \<noteq> []"
    using length_fetch_stock_data [of 0 "\<lambda>i. (1500, 5 / 2, 500000)"] by auto
  then have "hd (fetch_stock_data 0 (\<lambda>i. (1500, 5 / 2, 500000)))
               \<in> set (fetch_stock_data 0 (\<lambda>i. (1500, 5 / 2, 500000)))"
    and "last (fetch_stock_data 0 (\<lambda>i. (1500, 5 / 2, 500000)))
               \<in> set (fetch_stock_data 0 (\<lambda>i. (1500, 5 / 2, 500000)))"
    by simp_all
  with fetch_stock_data_scan_time [of 0 "\<lambda>i. (1500, 5 / 2, 500000)"] show ?thesis
    by blast
qed

text \<open>
  C10. Whenever the numbers drawn are in the ranges \<open>random.uniform\<close> and \<open>random.randint\<close>
  are called with, \<open>_fetch_stock_data\<close> returns a non-empty list of exactly 20 records, each
  with a price in \<open>[100, 3000]\<close>, a \<open>change_percent\<close> in \<open>[-5, 5]\<close>, a positive volume and a
  symbol of \<open>sample_stocks\<close>, whose 20 symbols are distinct and are the symbols of the
  records in order. Consequently a scan cycle fetching from it never takes the branch of
  the empty result: the line \<open>No data received from scan\<close> is not printed.
\<close>

theorem fetch_stock_data_builtin:
  assumes "\<forall>i<20. case rng i of (base_price, change, vol) \<Rightarrow>
             100 \<le> base_price \<and> base_price \<le> 3000 \<and> - 5 \<le> change \<and> change \<le> 5
             \<and> 100000 \<le> vol \<and> vol \<le> 10000000"
  shows "fetch_stock_data ct rng \<noteq> []
    \<and> length (fetch_stock_data ct rng) = 20
    \<and> (\<forall>r\<in>set (fetch_stock_data ct rng).
          100 \<le> price r \<and> price r \<le> 3000 \<and> - 5 \<le> change_percent r \<and> change_percent r \<le> 5
          \<and> 0 < volume r \<and> quote.symbol r \<in> set (map stock.symbol sample_stocks))
    \<and> map quote.symbol (fetch_stock_data ct rng) = map stock.symbol sample_stocks
    \<and> distinct (map stock.symbol sample_stocks)
    \<and> length (map stock.symbol sample_stocks) = 20
    \<and> No_data_received \<notin> set (snd (perform_scan_builtin self t0 ct rng t1))"
proof -
  have len: "length (fetch_stock_data ct rng) = 20" by (rule length_fetch_stock_data)
  then have ne: "fetch_stock_data ct rng \<noteq> []" by auto
  have rows: "\<forall>r\<in>set (fetch_stock_data ct rng).
          100 \<le> price r \<and> price r \<le> 3000 \<and> - 5 \<le> change_percent r \<and> change_percent r \<le> 5
          \<and> 0 < volume r \<and> quote.symbol r \<in> set (map stock.symbol sample_stocks)"
  proof
    fix r assume "r \<in> set (fetch_stock_data ct rng)"
    from fetch_stock_data_row [OF this] obtain k where k: "k < 20"
      "quote.symbol r = stock.symbol (sample_stocks ! k)"
      "price r = round2 (fst (rng k))" "change_percent r = round2 (fst (snd (rng k)))"
      "volume r = snd (snd (rng k))"
      by blast
    obtain bp ch vl where rk: "rng k = (bp, ch, vl)" by (cases "rng k")
    from assms [rule_format, OF k(1)] have b: "100 \<le> fst (rng k)" "fst (rng k) \<le> 3000"
      "- 5 \<le> fst (snd (rng k))" "fst (snd (rng k)) \<le> 5" "100000 \<le> snd (snd (rng k))"
      by (simp_all add: rk)
    have p: "100 \<le> round2 (fst (rng k)) \<and> round2 (fst (rng k)) \<le> 3000"
      using round2_bounds [of 100 "fst (rng k)" 3000] b(1,2) by simp
    have c: "- 5 \<le> round2 (fst (snd (rng k))) \<and> round2 (fst (snd (rng k))) \<le> 5"
      using round2_bounds [of "- 5" "fst (snd (rng k))" 5] b(3,4) by simp
    have "sample_stocks ! k \<in> set sample_stocks"
      using k(1) by (simp add: length_sample_stocks)
    then have s: "quote.symbol r \<in> set (map stock.symbol sample_stocks)"
      by (simp add: k(2))
    from p c s b(5) show "100 \<le> price r \<and> price r \<le> 3000 \<and> - 5 \<le> change_percent r
          \<and> change_percent r \<le> 5
          \<and> 0 < volume r \<and> quote.symbol r \<in> set (map stock.symbol sample_stocks)"
      by (simp add: k(3,4,5))
  qed
  have out: "No_data_received \<notin> set (snd (perform_scan_builtin self t0 ct rng t1))"
    using ne by (simp add: perform_scan_builtin_def perform_scan_def Let_def)
  from len ne rows out symbols_fetch_stock_data [of ct rng] distinct_sample_symbols
    length_sample_stocks
  show ?thesis
    by (intro conjI) (assumption | simp only: length_map)+
qed

theorem fetch_stock_data_builtin_witness:
  "length (fetch_stock_data 0 (\<lambda>i. (1500, 5 / 2, 500000))) = 20
   \<and> No_data_received \<notin> set (snd (perform_scan_builtin (StockScanner_init DataManager_init) 0 0
        (\<lambda>i. (1500, 5 / 2, 500000)) 0))"
proof -
  have drawn: "\<forall>i<20. case (1500 :: rat, 5 / 2 :: rat, 500000 :: int) of
             (base_price, change, vol) \<Rightarrow>
               100 \<le> base_price \<and> base_price \<le> 3000 \<and> - 5 \<le> change \<and> change \<le> 5
               \<and> 100000 \<le> vol \<and> vol \<le> 10000000"
    by simp
  from fetch_stock_data_builtin
         [of "\<lambda>i. (1500, 5 / 2, 500000)" 0 "StockScanner_init DataManager_init" 0 0, OF drawn]
  show ?thesis by blast
qed

end
